theory Spec2Isabelle
  imports Main
begin

section \<open>The resistor-color-duo analyzer\<close>

text \<open>
  A shallow embedding of \<^verbatim>\<open>src/analyzers/resistor-color-duo/index.ts\<close>: the class
  \<^verbatim>\<open>ResistorColorDuoAnalyzer\<close> with its three memoising getters, the checks
  \<^verbatim>\<open>checkStructure\<close>, \<^verbatim>\<open>checkSignature\<close>, \<^verbatim>\<open>checkForOptimalSolutions\<close>,
  \<^verbatim>\<open>checkForTips\<close>, the matchers and \<^verbatim>\<open>execute\<close>.

  The analyzer object is a record that every method takes and returns. A method that can
  throw returns a \<open>result\<close>: \<open>Return\<close> with the new state, or \<open>Throw\<close> with what was
  thrown and the state at that moment (the mutations made before a throw persist on the
  object). The parser and the tree utilities are imported from files outside this class;
  they are parameters of the model, bundled in the record \<open>externals\<close>. The calls to
  \<^verbatim>\<open>this.logger.log\<close> write to a log that no check reads and are left out.
\<close>

subsection \<open>Syntax-tree facts\<close>

text \<open>
  \<^verbatim>\<open>AST_NODE_TYPES\<close> is a string enum of the parser library: each member's value is its
  own name. The four members this class compares against:
\<close>

type_synonym node_type = string

definition ArrayExpression :: node_type where
  "ArrayExpression = ''ArrayExpression''"

definition FunctionExpression :: node_type where
  "FunctionExpression = ''FunctionExpression''"

definition ArrowFunctionExpression :: node_type where
  "ArrowFunctionExpression = ''ArrowFunctionExpression''"

definition RestElement :: node_type where
  "RestElement = ''RestElement''"

text \<open>
  A parameter node of the main method. The class reads its \<^verbatim>\<open>type\<close> and its
  \<^verbatim>\<open>typeAnnotation\<close>, and hands the node to \<^verbatim>\<open>parameterName\<close>; the field
  \<open>pname\<close> is the name that accessor finds in the node.
\<close>

record parameter =
  ptype :: node_type
  pname :: string
  typeAnnotation :: "string option"

text \<open>
  Modelled from the spec: the type \<^verbatim>\<open>MainMethod\<close> (utils/extract_main_method) is not
  among the sources. The data model gives the exported function "the identifier, parameter
  list [...] and body reference", absent as a whole "if no qualifying export exists": the
  identifier is always there, so \<^verbatim>\<open>method.id!.name\<close> reads the field \<open>id_name\<close>.
\<close>

record MainMethod =
  id_name :: string
  params :: "parameter list"

text \<open>
  The export statement found for \<^verbatim>\<open>value\<close>. An \<^verbatim>\<open>ExportNamedDeclaration\<close> has a
  list of specifiers (empty for \<^verbatim>\<open>export function value\<close>, the exported names for
  \<^verbatim>\<open>export { value }\<close>); the guard \<^verbatim>\<open>specifiers && ...\<close> in \<^verbatim>\<open>hasInlineExport\<close>
  allows for a statement without the field, which is \<open>None\<close> here.
  \<^verbatim>\<open>extractExport\<close> returns a pair; the class reads its first component only, and the
  second is kept as the type of the exported node.
\<close>

record ExportDeclaration =
  specifiers :: "string list option"

type_synonym export_result = "ExportDeclaration option \<times> node_type option"

text \<open>
  Modelled from the spec: the type of the elements of \<^verbatim>\<open>findTopLevelConstants\<close>
  (utils/find_top_level_constants) is not among the sources. The data model gives a
  top-level constant "a name, a declared-kind tag (let/const/var), and an initializer-shape
  tag": every constant has an initializer, and \<^verbatim>\<open>c.init!.type\<close> reads the field
  \<open>init_type\<close>.
\<close>

record ProgramConstant =
  cname :: string
  kind :: string
  init_type :: node_type

subsection \<open>Comments and output\<close>

text \<open>
  The comment factories imported from comments/shared, and the tip this class declares
  itself. A comment is the factory applied to its variables, a list of name/value pairs in
  the order of the object literal in the source; \<^verbatim>\<open>TIP_EXPORT_INLINE()\<close> takes none.
\<close>

datatype comment =
    NO_METHOD "(string \<times> string) list"
  | NO_NAMED_EXPORT "(string \<times> string) list"
  | NO_PARAMETER "(string \<times> string) list"
  | UNEXPECTED_SPLAT_ARGS "(string \<times> string) list"
  | TIP_EXPORT_INLINE

datatype verdict = Approved | Disapproved | ReferredToMentor

record AnalyzerOutput =
  status :: verdict
  comments :: "comment list"

datatype thrown = EarlyFinalization | TypeError | ParseFailure

subsection \<open>The analyzer object\<close>

text \<open>
  The fields of the class: \<^verbatim>\<open>program\<close> and \<^verbatim>\<open>source\<close> (declared with \<^verbatim>\<open>!\<close> and
  assigned by \<^verbatim>\<open>execute\<close> before anything reads them), the three caches
  \<^verbatim>\<open>_mainMethod\<close>, \<^verbatim>\<open>_mainExport\<close>, \<^verbatim>\<open>_mainConstants\<close> (\<open>None\<close> while
  undefined), and the output that the base class holds.
\<close>

record 'p analyzer =
  program :: 'p
  source :: string
  cached_mainMethod :: "MainMethod option"
  cached_mainExport :: "export_result option"
  cached_mainConstants :: "ProgramConstant list option"
  analyzer_output :: AnalyzerOutput

datatype 'p result = Return "'p analyzer" | Throw thrown "'p analyzer"

text \<open>
  The imported functions: \<^verbatim>\<open>Parser.parse\<close> (\<open>None\<close> when the promise is rejected,
  otherwise the program and the source of the one parsed file),
  \<^verbatim>\<open>extractMainMethod\<close>, \<^verbatim>\<open>extractExport\<close> and \<^verbatim>\<open>findTopLevelConstants\<close>.
\<close>

record ('i, 'p) externals =
  parse :: "'i \<Rightarrow> ('p \<times> string) option"
  extractMainMethod :: "'p \<Rightarrow> string \<Rightarrow> MainMethod option"
  extractExport :: "'p \<Rightarrow> string \<Rightarrow> export_result"
  findTopLevelConstants :: "'p \<Rightarrow> string list \<Rightarrow> ProgramConstant list"

text \<open>
  Modelled from the spec: \<^verbatim>\<open>parameterName\<close> (utils/extract_parameter) and
  \<^verbatim>\<open>annotateType\<close> (utils/type_annotations) are not among the sources. The spec calls
  them "a parameter-name/type-annotation accessor used only for the splat-argument
  comment", which carries "the parameter's name and its declared/annotated type (or
  "untyped" if none)".
\<close>

definition parameterName :: "parameter \<Rightarrow> string" where
  "parameterName p = pname p"

definition annotateType :: "string option \<Rightarrow> string" where
  "annotateType t = (case t of None \<Rightarrow> ''untyped'' | Some a \<Rightarrow> a)"

subsection \<open>The base class\<close>

text \<open>
  Modelled from the spec: the base class \<^verbatim>\<open>AnalyzerImpl\<close> with \<^verbatim>\<open>comment\<close>,
  \<^verbatim>\<open>hasCommentary\<close>, \<^verbatim>\<open>disapprove\<close>, \<^verbatim>\<open>approve\<close> and \<^verbatim>\<open>run\<close> is not among the
  sources. From the spec: comments "are append-only for the lifetime of one analysis run";
  a blocking comment "forces Disapproved and halts further checks"; the verdict is
  "terminal, produced at most once per run, carrying the accumulated comment list";
  "ReferredToMentor is the default"; there is "no shared mutable state between runs"; a
  parse failure is "propagated to the caller as a distinct failure, not encoded as any
  verdict". So \<^verbatim>\<open>disapprove\<close> and \<^verbatim>\<open>approve\<close> record the comment they are given, set
  the status and leave \<^verbatim>\<open>execute\<close> by throwing (their callers are typed
  \<^verbatim>\<open>void | never\<close>, and \<^verbatim>\<open>checkSignature\<close> reads \<^verbatim>\<open>method.params[0]\<close> right after
  disapproving an empty parameter list); \<^verbatim>\<open>run\<close> starts from an empty output with
  status ReferredToMentor, calls \<^verbatim>\<open>execute\<close>, and returns the output when
  \<^verbatim>\<open>execute\<close> returns or finalises early; anything else thrown is the caller's.
\<close>

definition comment :: "comment \<Rightarrow> 'p analyzer \<Rightarrow> 'p analyzer" where
  "comment c s = s\<lparr>analyzer_output := (analyzer_output s)\<lparr>comments := comments (analyzer_output s) @ [c]\<rparr>\<rparr>"

definition hasCommentary :: "'p analyzer \<Rightarrow> bool" where
  "hasCommentary s \<longleftrightarrow> length (comments (analyzer_output s)) > 0"

definition finalise :: "verdict \<Rightarrow> comment option \<Rightarrow> 'p analyzer \<Rightarrow> 'p result" where
  "finalise v c s =
     (let s1 = (case c of None \<Rightarrow> s | Some c' \<Rightarrow> comment c' s)
      in Throw EarlyFinalization (s1\<lparr>analyzer_output := (analyzer_output s1)\<lparr>status := v\<rparr>\<rparr>))"

definition disapprove :: "comment option \<Rightarrow> 'p analyzer \<Rightarrow> 'p result" where
  "disapprove c s = finalise Disapproved c s"

definition approve :: "comment option \<Rightarrow> 'p analyzer \<Rightarrow> 'p result" where
  "approve c s = finalise Approved c s"

subsection \<open>The memoising getters\<close>

text \<open>
  Each getter fills its cache when the cache is falsy and returns the cache. An absent
  main method is \<^verbatim>\<open>undefined\<close>, so it is looked for again at the next read; the pair of
  \<^verbatim>\<open>extractExport\<close> and the array of \<^verbatim>\<open>findTopLevelConstants\<close> are objects, truthy
  whatever they hold.
\<close>

definition mainMethod ::
  "('i, 'p) externals \<Rightarrow> 'p analyzer \<Rightarrow> MainMethod option \<times> 'p analyzer" where
  "mainMethod ext s =
     (let s1 = (if cached_mainMethod s = None
                then s\<lparr>cached_mainMethod := extractMainMethod ext (program s) ''value''\<rparr>
                else s)
      in (cached_mainMethod s1, s1))"

definition mainExport ::
  "('i, 'p) externals \<Rightarrow> 'p analyzer \<Rightarrow> export_result \<times> 'p analyzer" where
  "mainExport ext s =
     (case cached_mainExport s of
        None \<Rightarrow>
          (let r = extractExport ext (program s) ''value''
           in (r, s\<lparr>cached_mainExport := Some r\<rparr>))
      | Some r \<Rightarrow> (r, s))"

definition mainConstants ::
  "('i, 'p) externals \<Rightarrow> 'p analyzer \<Rightarrow> ProgramConstant list \<times> 'p analyzer" where
  "mainConstants ext s =
     (case cached_mainConstants s of
        None \<Rightarrow>
          (let r = findTopLevelConstants ext (program s) [''let'', ''const'', ''var'']
           in (r, s\<lparr>cached_mainConstants := Some r\<rparr>))
      | Some r \<Rightarrow> (r, s))"

subsection \<open>Structure and signature\<close>

definition checkStructure :: "('i, 'p) externals \<Rightarrow> 'p analyzer \<Rightarrow> 'p result" where
  "checkStructure ext s =
     (let (method, s1) = mainMethod ext s;
          ((functionDeclaration, _), s2) = mainExport ext s1;
          s3 = (if method = None
                then comment (NO_METHOD [(''method.name'', ''value'')]) s2 else s2);
          s4 = (if functionDeclaration = None
                then comment (NO_NAMED_EXPORT [(''export.name'', ''value'')]) s3 else s3)
      in if hasCommentary s4 then disapprove None s4 else Return s4)"

text \<open>
  \<^verbatim>\<open>this.mainMethod!\<close> asserts the method for the type checker only: were it absent,
  \<^verbatim>\<open>method.params\<close> would throw a TypeError, which is the first branch.
\<close>

definition checkSignature :: "('i, 'p) externals \<Rightarrow> 'p analyzer \<Rightarrow> 'p result" where
  "checkSignature ext s =
     (case mainMethod ext s of
        (None, s1) \<Rightarrow> Throw TypeError s1
      | (Some method, s1) \<Rightarrow>
          (case params method of
             [] \<Rightarrow> disapprove (Some (NO_PARAMETER [(''function.name'', id_name method)])) s1
           | firstParameter # _ \<Rightarrow>
               if ptype firstParameter = RestElement
               then
                 (let splatArgName = parameterName firstParameter;
                      splatArgType = annotateType (typeAnnotation firstParameter)
                  in disapprove
                       (Some (UNEXPECTED_SPLAT_ARGS
                          [(''splat-arg.name'', splatArgName),
                           (''parameter.type'', splatArgType)])) s1)
               else Return s1))"

subsection \<open>The matchers\<close>

definition isUsingOptimalConstants ::
  "('i, 'p) externals \<Rightarrow> 'p analyzer \<Rightarrow> bool \<times> 'p analyzer" where
  "isUsingOptimalConstants ext s =
     (let (cs, s1) = mainConstants ext s
      in if length (filter (\<lambda>c. init_type c = ArrayExpression) cs) \<noteq> 1
         then (False, s1)
         else
           (let acceptableTypes =
                  [ArrayExpression, FunctionExpression, ArrowFunctionExpression];
                (cs', s2) = mainConstants ext s1
            in if length (filter (\<lambda>c. \<not> List.member acceptableTypes (init_type c)) cs') > 0
               then (False, s2)
               else (True, s2)))"

definition isOptimalMapJoinImplementation ::
  "('i, 'p) externals \<Rightarrow> 'p analyzer \<Rightarrow> bool \<times> 'p analyzer" where
  "isOptimalMapJoinImplementation ext s =
     (let (optimalConstants, s1) = isUsingOptimalConstants ext s
      in if \<not> optimalConstants then (False, s1) else (False, s1))"

definition isOptimalReduceImplementation ::
  "('i, 'p) externals \<Rightarrow> 'p analyzer \<Rightarrow> bool \<times> 'p analyzer" where
  "isOptimalReduceImplementation ext s = (False, s)"

text \<open>
  \<^verbatim>\<open>this.mainExport[0]!.specifiers\<close> throws a TypeError when the export is absent. The
  second read of the getter in the same expression finds the cache filled by the first and
  changes nothing, so the state is threaded once.
\<close>

definition hasInlineExport ::
  "('i, 'p) externals \<Rightarrow> 'p analyzer \<Rightarrow> (thrown + bool) \<times> 'p analyzer" where
  "hasInlineExport ext s =
     (case mainExport ext s of
        ((None, _), s1) \<Rightarrow> (Inl TypeError, s1)
      | ((Some d, _), s1) \<Rightarrow>
          (case specifiers d of
             None \<Rightarrow> (Inr False, s1)
           | Some sp \<Rightarrow> (Inr (length sp = 0), s1)))"

definition checkForTips :: "('i, 'p) externals \<Rightarrow> 'p analyzer \<Rightarrow> 'p result" where
  "checkForTips ext s =
     (case hasInlineExport ext s of
        (Inl e, s1) \<Rightarrow> Throw e s1
      | (Inr inline, s1) \<Rightarrow>
          if \<not> inline then Return (comment TIP_EXPORT_INLINE s1) else Return s1)"

text \<open>
  The condition is \<^verbatim>\<open>!mapJoin && !reduce\<close>: the reduce matcher is called only when the
  map-join matcher said no.
\<close>

definition checkForOptimalSolutions :: "('i, 'p) externals \<Rightarrow> 'p analyzer \<Rightarrow> 'p result" where
  "checkForOptimalSolutions ext s =
     (let (mapJoin, s1) = isOptimalMapJoinImplementation ext s;
          (reduce, s2) = (if \<not> mapJoin then isOptimalReduceImplementation ext s1
                          else (False, s1))
      in if \<not> mapJoin \<and> \<not> reduce
         then Return s2
         else
           (case checkForTips ext s2 of
              Throw e t \<Rightarrow> Throw e t
            | Return s3 \<Rightarrow> approve None s3))"

subsection \<open>One run\<close>

definition execute :: "('i, 'p) externals \<Rightarrow> 'p analyzer \<Rightarrow> 'i \<Rightarrow> 'p result" where
  "execute ext s input =
     (case parse ext input of
        None \<Rightarrow> Throw ParseFailure s
      | Some (prog, src) \<Rightarrow>
          (let s0 = s\<lparr>program := prog, source := src\<rparr>
           in case checkStructure ext s0 of
                Throw e t \<Rightarrow> Throw e t
              | Return s1 \<Rightarrow>
                  (case checkSignature ext s1 of
                     Throw e t \<Rightarrow> Throw e t
                   | Return s2 \<Rightarrow> checkForOptimalSolutions ext s2)))"

datatype outcome = Finished AnalyzerOutput | Failed thrown

definition fresh_output :: AnalyzerOutput where
  "fresh_output = \<lparr>status = ReferredToMentor, comments = []\<rparr>"

text \<open>
  Modelled from the spec: \<^verbatim>\<open>AnalyzerImpl.run\<close>, as described with the base class above.
  It returns the outcome and the analyzer object as the run leaves it.
\<close>

definition run :: "('i, 'p) externals \<Rightarrow> 'p analyzer \<Rightarrow> 'i \<Rightarrow> outcome \<times> 'p analyzer" where
  "run ext s input =
     (case execute ext (s\<lparr>analyzer_output := fresh_output\<rparr>) input of
        Return t \<Rightarrow> (Finished (analyzer_output t), t)
      | Throw e t \<Rightarrow>
          if e = EarlyFinalization then (Finished (analyzer_output t), t) else (Failed e, t))"

subsection \<open>Notions the claims use\<close>

text \<open>
  A newly constructed analyzer: none of the three caches has been filled.
\<close>

definition unused :: "'p analyzer \<Rightarrow> bool" where
  "unused s \<longleftrightarrow>
     cached_mainMethod s = None \<and> cached_mainExport s = None \<and> cached_mainConstants s = None"



subsection \<open>Submissions given by their facts\<close>

text \<open>
  For concrete runs the parser and the tree utilities are instantiated by the simplest
  functions of the right shape: a program is the bundle of what the three utilities find
  in it, the input is the program with its source text, and parsing always succeeds.
\<close>

record facts =
  method_found :: "MainMethod option"
  export_found :: export_result
  constants_found :: "ProgramConstant list"

definition facts_externals :: "(facts \<times> string, facts) externals" where
  "facts_externals =
     \<lparr>parse = (\<lambda>input. Some input),
      extractMainMethod = (\<lambda>p n. if n = ''value'' then method_found p else None),
      extractExport = (\<lambda>p n. if n = ''value'' then export_found p else (None, None)),
      findTopLevelConstants =
        (\<lambda>p kinds. filter (\<lambda>c. List.member kinds (kind c)) (constants_found p))\<rparr>"

definition no_facts :: facts where
  "no_facts = \<lparr>method_found = None, export_found = (None, None), constants_found = []\<rparr>"

definition new_analyzer :: "facts analyzer" where
  "new_analyzer =
     \<lparr>program = no_facts, source = [],
      cached_mainMethod = None, cached_mainExport = None, cached_mainConstants = None,
      analyzer_output = fresh_output\<rparr>"

definition plain_parameter :: "string \<Rightarrow> parameter" where
  "plain_parameter n = \<lparr>ptype = ''Identifier'', pname = n, typeAnnotation = None\<rparr>"

definition inline_export :: export_result where
  "inline_export = (Some \<lparr>specifiers = Some []\<rparr>, Some ''VariableDeclaration'')"

definition const_of :: "string \<Rightarrow> node_type \<Rightarrow> ProgramConstant" where
  "const_of n t = \<lparr>cname = n, kind = ''const'', init_type = t\<rparr>"

text \<open>
  Fixture 307 of the test suite, the map-join solution that the comment in
  \<^verbatim>\<open>isOptimalMapJoinImplementation\<close> describes:
  \<^verbatim>\<open>const COLORS = ['black', ..., 'white'];\<close>
  \<^verbatim>\<open>const colorCode = (color) => COLORS.indexOf(color);\<close>
  \<^verbatim>\<open>export const value = (input) => Number(input.map(color => colorCode(color)).join(''));\<close>
\<close>

definition fixture_307 :: facts where
  "fixture_307 =
     \<lparr>method_found = Some \<lparr>id_name = ''value'', params = [plain_parameter ''input'']\<rparr>,
      export_found = inline_export,
      constants_found =
        [const_of ''COLORS'' ArrayExpression,
         const_of ''colorCode'' ArrowFunctionExpression,
         const_of ''value'' ArrowFunctionExpression]\<rparr>"

text \<open>
  The reduce solution as the comment in \<^verbatim>\<open>isOptimalReduceImplementation\<close> writes it,
  with the lookup of the map-join comment:
  \<^verbatim>\<open>const COLORS = ['black', ..., 'white']\<close>
  \<^verbatim>\<open>function colorCode(color) { return COLORS.indexOf(color) }\<close>
  \<^verbatim>\<open>export function value(colors) {\<close>
  \<^verbatim>\<open>  return colors.reverse().reduce((value, color, i) => {\<close>
  \<^verbatim>\<open>    return colorCode(color) * (10 ** i) + value }, 0) }\<close>
\<close>

definition reduce_solution :: facts where
  "reduce_solution =
     \<lparr>method_found = Some \<lparr>id_name = ''value'', params = [plain_parameter ''colors'']\<rparr>,
      export_found = (Some \<lparr>specifiers = Some []\<rparr>, Some ''FunctionDeclaration''),
      constants_found = [const_of ''COLORS'' ArrayExpression]\<rparr>"

text \<open>
  The map-join solution of the comment in \<^verbatim>\<open>isOptimalMapJoinImplementation\<close>, exported
  by a list:
  \<^verbatim>\<open>const COLORS = ['black', ..., 'white']\<close>
  \<^verbatim>\<open>function colorCode(color) { return COLORS.indexOf(color) }\<close>
  \<^verbatim>\<open>function value(colors) { return Number(colors.map(colorCode).join('')) }\<close>
  \<^verbatim>\<open>export { value }\<close>
\<close>

definition export_list_solution :: facts where
  "export_list_solution =
     \<lparr>method_found = Some \<lparr>id_name = ''value'', params = [plain_parameter ''colors'']\<rparr>,
      export_found = (Some \<lparr>specifiers = Some [''value'']\<rparr>, Some ''FunctionDeclaration''),
      constants_found = [const_of ''COLORS'' ArrayExpression]\<rparr>"

text \<open>
  Fixture 423 of the test suite, whose table is an object literal with the ten colour
  names as keys:
  \<^verbatim>\<open>const COLORS = { 'black' : 0, 'brown' : 1, ..., 'white' : 9 }\<close>
  \<^verbatim>\<open>export const value = ([color1, color2]) => {\<close>
  \<^verbatim>\<open>  return(Number(String(COLORS[color1]) + String(COLORS[color2]))) }\<close>
\<close>

definition fixture_423 :: facts where
  "fixture_423 =
     \<lparr>method_found =
        Some \<lparr>id_name = ''value'',
              params = [\<lparr>ptype = ''ArrayPattern'', pname = ''input'', typeAnnotation = None\<rparr>]\<rparr>,
      export_found = inline_export,
      constants_found =
        [const_of ''COLORS'' ''ObjectExpression'',
         const_of ''value'' ArrowFunctionExpression]\<rparr>"

text \<open>
  Fixture 306 of the test suite, which has no \<^verbatim>\<open>export\<close> statement and no function
  declared under the name \<^verbatim>\<open>value\<close>:
  \<^verbatim>\<open>const COLORS = ["black", ..., "white"];\<close>
  \<^verbatim>\<open>module.exports = { value(input) { ... } }\<close>
\<close>

definition fixture_306 :: facts where
  "fixture_306 =
     \<lparr>method_found = None, export_found = (None, None),
      constants_found = [const_of ''COLORS'' ArrayExpression]\<rparr>"

text \<open>
  \<^verbatim>\<open>export function value() { return 0 }\<close>
\<close>

definition no_parameter_solution :: facts where
  "no_parameter_solution =
     \<lparr>method_found = Some \<lparr>id_name = ''value'', params = []\<rparr>,
      export_found = (Some \<lparr>specifiers = Some []\<rparr>, Some ''FunctionDeclaration''),
      constants_found = []\<rparr>"

text \<open>
  \<^verbatim>\<open>const COLORS = ['black', ..., 'white']\<close>
  \<^verbatim>\<open>export function value(...colors) {\<close>
  \<^verbatim>\<open>  return Number(colors.map(c => COLORS.indexOf(c)).join('')) }\<close>
\<close>

definition splat_solution :: facts where
  "splat_solution =
     \<lparr>method_found =
        Some \<lparr>id_name = ''value'',
              params = [\<lparr>ptype = RestElement, pname = ''colors'', typeAnnotation = None\<rparr>]\<rparr>,
      export_found = (Some \<lparr>specifiers = Some []\<rparr>, Some ''FunctionDeclaration''),
      constants_found = [const_of ''COLORS'' ArrayExpression]\<rparr>"

text \<open>
  A solution whose table is a Map:
  \<^verbatim>\<open>const RESISTOR_MAP = new Map([["black", 0], ..., ["white", 9]]);\<close>
  \<^verbatim>\<open>export const value = arr => Number(arr.map(c => RESISTOR_MAP.get(c)).join(''));\<close>
\<close>

definition map_table_solution :: facts where
  "map_table_solution =
     \<lparr>method_found = Some \<lparr>id_name = ''value'', params = [plain_parameter ''arr'']\<rparr>,
      export_found = inline_export,
      constants_found =
        [const_of ''RESISTOR_MAP'' ''NewExpression'',
         const_of ''value'' ArrowFunctionExpression]\<rparr>"

section \<open>Properties\<close>

subsection \<open>What each stage computes\<close>

text \<open>
  The getters return what the cache holds or what the utility finds, and leave it in the
  cache. With that, each check is a function of what the getters return.
\<close>

lemmas getters = mainMethod_def mainExport_def mainConstants_def
lemmas base = comment_def hasCommentary_def finalise_def disapprove_def approve_def

lemma mainMethod_state: "snd (mainMethod ext s) = s\<lparr>cached_mainMethod := fst (mainMethod ext s)\<rparr>"
  by (simp add: mainMethod_def Let_def)

lemma mainExport_state: "snd (mainExport ext s) = s\<lparr>cached_mainExport := Some (fst (mainExport ext s))\<rparr>"
  by (simp add: mainExport_def Let_def split: option.splits)

lemma mainConstants_state: "snd (mainConstants ext s) = s\<lparr>cached_mainConstants := Some (fst (mainConstants ext s))\<rparr>"
  by (simp add: mainConstants_def Let_def split: option.splits)

lemma mainConstants_again: "mainConstants ext (snd (mainConstants ext s)) = (fst (mainConstants ext s), snd (mainConstants ext s))"
  by (simp add: mainConstants_def Let_def split: option.splits)

lemma isOptimalMapJoinImplementation_False: "isOptimalMapJoinImplementation ext s = (False, snd (mainConstants ext s))"
  by (simp add: isOptimalMapJoinImplementation_def isUsingOptimalConstants_def Let_def case_prod_beta mainConstants_again)

lemma checkForOptimalSolutions_returns: "checkForOptimalSolutions ext s = Return (snd (mainConstants ext s))"
  by (simp add: checkForOptimalSolutions_def isOptimalMapJoinImplementation_False isOptimalReduceImplementation_def)

lemma mainExport_indep [simp]:
  "fst (mainExport ext (s\<lparr>cached_mainMethod := x\<rparr>)) = fst (mainExport ext s)"
  "fst (mainExport ext (s\<lparr>analyzer_output := y\<rparr>)) = fst (mainExport ext s)"
  "fst (mainExport ext (s\<lparr>cached_mainConstants := z\<rparr>)) = fst (mainExport ext s)"
  by (simp_all add: mainExport_def Let_def split: option.splits)

lemma mainMethod_indep [simp]:
  "fst (mainMethod ext (s\<lparr>cached_mainExport := x\<rparr>)) = fst (mainMethod ext s)"
  "fst (mainMethod ext (s\<lparr>analyzer_output := y\<rparr>)) = fst (mainMethod ext s)"
  "fst (mainMethod ext (s\<lparr>cached_mainConstants := z\<rparr>)) = fst (mainMethod ext s)"
  by (simp_all add: mainMethod_def Let_def)

lemma mainMethod_again [simp]:
  "fst (mainMethod ext (s\<lparr>cached_mainMethod := fst (mainMethod ext s)\<rparr>)) = fst (mainMethod ext s)"
  by (simp add: mainMethod_def Let_def)

lemma mainExport_again [simp]:
  "fst (mainExport ext (s\<lparr>cached_mainExport := Some e\<rparr>)) = e"
  by (simp add: mainExport_def Let_def)

lemma mainMethod_value:
  "fst (mainMethod ext s) =
     (if cached_mainMethod s = None then extractMainMethod ext (program s) ''value''
      else cached_mainMethod s)"
  by (simp add: mainMethod_def Let_def)

lemma mainExport_value:
  "fst (mainExport ext s) =
     (case cached_mainExport s of
        None \<Rightarrow> extractExport ext (program s) ''value'' | Some r \<Rightarrow> r)"
  by (simp add: mainExport_def Let_def split: option.splits)

lemma checkStructure_eq:
  "checkStructure ext s =
     (let m = fst (mainMethod ext s); e = fst (mainExport ext s);
          s2 = s\<lparr>cached_mainMethod := m, cached_mainExport := Some e\<rparr>;
          cs = comments (analyzer_output s)
               @ (if m = None then [NO_METHOD [(''method.name'', ''value'')]] else [])
               @ (if fst e = None then [NO_NAMED_EXPORT [(''export.name'', ''value'')]] else [])
      in if cs = [] then Return s2
         else Throw EarlyFinalization
                (s2\<lparr>analyzer_output := \<lparr>status = Disapproved, comments = cs\<rparr>\<rparr>))"
  by (simp add: checkStructure_def case_prod_beta Let_def mainMethod_state mainExport_state base)

lemma checkSignature_eq:
  "checkSignature ext s =
     (let m = fst (mainMethod ext s); s1 = s\<lparr>cached_mainMethod := m\<rparr>
      in case m of
           None \<Rightarrow> Throw TypeError s1
         | Some f \<Rightarrow>
             (case params f of
                [] \<Rightarrow> Throw EarlyFinalization
                  (s1\<lparr>analyzer_output := \<lparr>status = Disapproved,
                     comments = comments (analyzer_output s) @ [NO_PARAMETER [(''function.name'', id_name f)]]\<rparr>\<rparr>)
              | p # ps \<Rightarrow>
                  if ptype p = RestElement
                  then Throw EarlyFinalization
                    (s1\<lparr>analyzer_output := \<lparr>status = Disapproved,
                       comments = comments (analyzer_output s) @
                         [UNEXPECTED_SPLAT_ARGS [(''splat-arg.name'', pname p),
                            (''parameter.type'', annotateType (typeAnnotation p))]]\<rparr>\<rparr>)
                  else Return s1))"
proof -
  obtain m s1 where ms: "mainMethod ext s = (m, s1)"
    by (cases "mainMethod ext s")
  have s1: "s1 = s\<lparr>cached_mainMethod := m\<rparr>"
    using mainMethod_state [of ext s] ms by simp
  show ?thesis
    unfolding checkSignature_def
    by (simp add: ms s1 base parameterName_def Let_def split: option.splits list.splits)
qed

lemmas stages = checkStructure_eq checkSignature_eq checkForOptimalSolutions_returns
lemmas found = mainMethod_value mainExport_value mainConstants_state

lemmas harness = facts_externals_def new_analyzer_def no_facts_def plain_parameter_def
  inline_export_def const_of_def

lemmas node_types = ArrayExpression_def ArrowFunctionExpression_def FunctionExpression_def
  RestElement_def

lemma isUsingOptimalConstants_value:
  "fst (isUsingOptimalConstants ext s) \<longleftrightarrow>
     length (filter (\<lambda>c. init_type c = ArrayExpression) (fst (mainConstants ext s))) = 1 \<and>
     filter (\<lambda>c. \<not> List.member [ArrayExpression, FunctionExpression, ArrowFunctionExpression] (init_type c))
       (fst (mainConstants ext s)) = []"
  by (simp add: isUsingOptimalConstants_def Let_def case_prod_beta mainConstants_again)

text \<open>
  A run on a submission that parses, as a function of what the two getters of
  \<^verbatim>\<open>checkStructure\<close> return.
\<close>

lemma mainMethod_cached [simp]:
  "fst (mainMethod ext (s\<lparr>cached_mainMethod := fst (mainMethod ext s), cached_mainExport := x\<rparr>))
     = fst (mainMethod ext s)"
  by (simp add: mainMethod_value)






lemma checkStructure_Return:
  assumes "checkStructure ext s = Return s1"
  shows "fst (mainMethod ext s) \<noteq> None" and "fst (fst (mainExport ext s)) \<noteq> None"
    and "s1 = s\<lparr>cached_mainMethod := fst (mainMethod ext s),
                 cached_mainExport := Some (fst (mainExport ext s))\<rparr>"
    and "comments (analyzer_output s) = []"
  using assms by (simp_all add: checkStructure_eq Let_def split: if_splits)

lemma checkSignature_no_TypeError:
  assumes "fst (mainMethod ext s) \<noteq> None"
  shows "checkSignature ext s \<noteq> Throw TypeError t"
  using assms by (auto simp: checkSignature_eq Let_def split: option.splits list.splits)

subsection \<open>Structure and signature failures\<close>



text \<open>
  C6. A submission that passes the structure check (the method and its export are both
  found) and whose \<^verbatim>\<open>value\<close> function declares no parameter is disapproved with the
  "no parameter" comment, whatever its constants and whatever else it contains: the output
  is exactly that verdict and that one comment.
\<close>

theorem no_parameter_disapproved:
  assumes "parse ext input = Some (prog, src)" and "unused s"
    and "extractMainMethod ext prog ''value'' = Some f"
    and "fst (extractExport ext prog ''value'') \<noteq> None"
    and "params f = []"
  shows "fst (run ext s input) =
           Finished \<lparr>status = Disapproved,
                     comments = [NO_PARAMETER [(''function.name'', id_name f)]]\<rparr>"
  using assms
  by (simp add: run_def execute_def stages found unused_def fresh_output_def Let_def)

theorem no_parameter_disapproved_witness:
  "parse facts_externals (no_parameter_solution, []) = Some (no_parameter_solution, []) \<and>
   unused new_analyzer \<and>
   extractMainMethod facts_externals no_parameter_solution ''value''
     = Some \<lparr>id_name = ''value'', params = []\<rparr> \<and>
   fst (extractExport facts_externals no_parameter_solution ''value'') \<noteq> None \<and>
   fst (run facts_externals new_analyzer (no_parameter_solution, [])) =
     Finished \<lparr>status = Disapproved,
               comments = [NO_PARAMETER [(''function.name'', ''value'')]]\<rparr>"
  using no_parameter_disapproved
    [of facts_externals "(no_parameter_solution, [])" no_parameter_solution "[]" new_analyzer
        "\<lparr>id_name = ''value'', params = []\<rparr>"]
  by (simp add: harness no_parameter_solution_def unused_def)

text \<open>
  C7. A submission that passes the structure check and whose \<^verbatim>\<open>value\<close> function has a
  rest element as its first parameter is disapproved with the "unexpected splat" comment,
  which carries the parameter's name and its annotated type, or \<^verbatim>\<open>untyped\<close> when it has
  no annotation.
\<close>

theorem splat_disapproved:
  assumes "parse ext input = Some (prog, src)" and "unused s"
    and "extractMainMethod ext prog ''value'' = Some f"
    and "fst (extractExport ext prog ''value'') \<noteq> None"
    and "params f = p # ps" and "ptype p = RestElement"
  shows "fst (run ext s input) =
           Finished \<lparr>status = Disapproved,
                     comments = [UNEXPECTED_SPLAT_ARGS
                       [(''splat-arg.name'', pname p),
                        (''parameter.type'',
                           (case typeAnnotation p of None \<Rightarrow> ''untyped'' | Some a \<Rightarrow> a))]]\<rparr>"
  using assms
  by (simp add: run_def execute_def stages found unused_def fresh_output_def Let_def annotateType_def)

theorem splat_disapproved_witness:
  "parse facts_externals (splat_solution, []) = Some (splat_solution, []) \<and>
   unused new_analyzer \<and>
   fst (extractExport facts_externals splat_solution ''value'') \<noteq> None \<and>
   fst (run facts_externals new_analyzer (splat_solution, [])) =
     Finished \<lparr>status = Disapproved,
               comments = [UNEXPECTED_SPLAT_ARGS
                 [(''splat-arg.name'', ''colors''), (''parameter.type'', ''untyped'')]]\<rparr>"
  using splat_disapproved
    [of facts_externals "(splat_solution, [])" splat_solution "[]" new_analyzer
        "\<lparr>id_name = ''value'',
          params = [\<lparr>ptype = RestElement, pname = ''colors'', typeAnnotation = None\<rparr>]\<rparr>"
        "\<lparr>ptype = RestElement, pname = ''colors'', typeAnnotation = None\<rparr>" "[]"]
  by (simp add: harness splat_solution_def unused_def)

subsection \<open>The optimal solutions\<close>

text \<open>
  C1. The claim is that a canonical map-join submission is approved. The matcher
  \<^verbatim>\<open>isOptimalMapJoinImplementation\<close> ends in \<^verbatim>\<open>return false  // still unimplemented\<close>:
  on fixture 307, the very shape its comment describes, the run is referred to the mentor.
\<close>

theorem map_join_fixture_referred:
  "fst (run facts_externals new_analyzer (fixture_307, src)) =
     Finished \<lparr>status = ReferredToMentor, comments = []\<rparr>"
  by (simp add: run_def execute_def stages found harness fixture_307_def node_types fresh_output_def Let_def)

text \<open>
  C2. The claim is that the reduce solution is approved. \<^verbatim>\<open>isOptimalReduceImplementation\<close>
  consists of the comment that describes the solution and \<^verbatim>\<open>return false\<close>: on that
  solution the run is referred to the mentor.
\<close>

theorem reduce_solution_referred:
  "fst (run facts_externals new_analyzer (reduce_solution, src)) =
     Finished \<lparr>status = ReferredToMentor, comments = []\<rparr>"
  by (simp add: run_def execute_def stages found harness reduce_solution_def node_types fresh_output_def Let_def)

text \<open>
  C5. The claim is that a map-join solution exported by \<^verbatim>\<open>export { value }\<close> is
  approved with the inline-export tip as its only comment. No matcher says yes, so
  \<^verbatim>\<open>checkForTips\<close> is never reached: the run is referred to the mentor without a comment.
\<close>

theorem export_list_solution_referred:
  "fst (run facts_externals new_analyzer (export_list_solution, src)) =
     Finished \<lparr>status = ReferredToMentor, comments = []\<rparr>"
  by (simp add: run_def execute_def stages found harness export_list_solution_def node_types fresh_output_def Let_def)

subsection \<open>The constants of an optimal solution\<close>

text \<open>
  C4, as the spec states it: the constants check accepts a table written as an object
  literal with the ten colour names as keys. It does not: on fixture 423, whose only
  constant besides the \<^verbatim>\<open>value\<close> arrow function is such a literal,
  \<^verbatim>\<open>isUsingOptimalConstants\<close> returns false. (The check reads the type of each
  initializer and nothing else of it, so the keys play no part.)
\<close>

theorem object_table_not_optimal_constants:
  "\<not> fst (isUsingOptimalConstants facts_externals (new_analyzer\<lparr>program := fixture_423\<rparr>))"
  by (simp add: isUsingOptimalConstants_def mainConstants_def harness fixture_423_def node_types Let_def)

text \<open>
  C4, amended: the constants check accepts the single-array form only. It returns true
  exactly when one top-level constant has an array initializer and every other one a
  function expression or an arrow function; a submission none of whose constants is an
  array, such as one whose table is an object or Map literal, fails it.
\<close>

theorem isUsingOptimalConstants_single_array:
  "(fst (isUsingOptimalConstants ext s) \<longleftrightarrow>
      (\<exists>xs c ys. fst (mainConstants ext s) = xs @ c # ys \<and> init_type c = ArrayExpression \<and>
         (\<forall>d \<in> set (xs @ ys).
            init_type d = FunctionExpression \<or> init_type d = ArrowFunctionExpression))) \<and>
   ((\<forall>c \<in> set (fst (mainConstants ext s)). init_type c \<noteq> ArrayExpression) \<longrightarrow>
      \<not> fst (isUsingOptimalConstants ext s))"
proof -
  let ?cs = "fst (mainConstants ext s)"
  let ?A = "\<lambda>c. init_type c = ArrayExpression"
  let ?F = "\<lambda>d. init_type d = FunctionExpression \<or> init_type d = ArrowFunctionExpression"
  have distinct_types: "ArrayExpression \<noteq> FunctionExpression" "ArrayExpression \<noteq> ArrowFunctionExpression"
    by (simp_all add: node_types)
  have ok: "fst (isUsingOptimalConstants ext s) \<longleftrightarrow>
        length (filter ?A ?cs) = 1 \<and> (\<forall>c \<in> set ?cs. ?A c \<or> ?F c)"
    by (auto simp: isUsingOptimalConstants_value filter_empty_conv)
  have shape: "(length (filter ?A ?cs) = 1 \<and> (\<forall>c \<in> set ?cs. ?A c \<or> ?F c)) \<longleftrightarrow>
        (\<exists>xs c ys. ?cs = xs @ c # ys \<and> ?A c \<and> (\<forall>d \<in> set (xs @ ys). ?F d))"
  proof
    assume h: "length (filter ?A ?cs) = 1 \<and> (\<forall>c \<in> set ?cs. ?A c \<or> ?F c)"
    then obtain c where fc: "filter ?A ?cs = [c]"
      by (cases "filter ?A ?cs") auto
    then obtain xs ys where split: "?cs = xs @ c # ys" "\<forall>u \<in> set xs. \<not> ?A u" "?A c" "filter ?A ys = []"
      unfolding filter_eq_Cons_iff by auto
    then have "\<forall>u \<in> set ys. \<not> ?A u"
      by (simp add: filter_empty_conv)
    with h split have "\<forall>d \<in> set (xs @ ys). ?F d" by auto
    with split show "\<exists>xs c ys. ?cs = xs @ c # ys \<and> ?A c \<and> (\<forall>d \<in> set (xs @ ys). ?F d)"
      by blast
  next
    assume "\<exists>xs c ys. ?cs = xs @ c # ys \<and> ?A c \<and> (\<forall>d \<in> set (xs @ ys). ?F d)"
    then obtain xs c ys where split: "?cs = xs @ c # ys" "?A c" "\<forall>d \<in> set (xs @ ys). ?F d"
      by blast
    have "\<not> ?A d" if "d \<in> set xs \<or> d \<in> set ys" for d
    proof -
      from that split(3) have "?F d" by auto
      then show ?thesis using distinct_types by auto
    qed
    then have "filter ?A xs = []" "filter ?A ys = []"
      by (simp_all add: filter_empty_conv)
    with split show "length (filter ?A ?cs) = 1 \<and> (\<forall>c \<in> set ?cs. ?A c \<or> ?F c)"
      by auto
  qed
  have none: "(\<forall>c \<in> set ?cs. \<not> ?A c) \<longrightarrow> \<not> fst (isUsingOptimalConstants ext s)"
    by (auto simp: ok filter_empty_conv [THEN iffD2])
  show ?thesis
  proof (intro conjI)
    show "fst (isUsingOptimalConstants ext s) \<longleftrightarrow>
      (\<exists>xs c ys. ?cs = xs @ c # ys \<and> ?A c \<and> (\<forall>d \<in> set (xs @ ys). ?F d))"
      using ok shape by (rule trans)
    show "(\<forall>c \<in> set ?cs. init_type c \<noteq> ArrayExpression) \<longrightarrow>
      \<not> fst (isUsingOptimalConstants ext s)"
      by (rule none)
  qed
qed

theorem isUsingOptimalConstants_single_array_witness:
  "fst (isUsingOptimalConstants facts_externals (new_analyzer\<lparr>program := fixture_307\<rparr>)) \<and>
   \<not> fst (isUsingOptimalConstants facts_externals (new_analyzer\<lparr>program := map_table_solution\<rparr>))"
proof -
  let ?s = "new_analyzer\<lparr>program := fixture_307\<rparr>"
  let ?t = "new_analyzer\<lparr>program := map_table_solution\<rparr>"
  have cs: "fst (mainConstants facts_externals ?s) =
      const_of ''COLORS'' ArrayExpression #
        [const_of ''colorCode'' ArrowFunctionExpression,
         const_of ''value'' ArrowFunctionExpression]"
    by (simp add: mainConstants_def harness fixture_307_def Let_def)
  have "\<exists>xs c ys. fst (mainConstants facts_externals ?s) = xs @ c # ys \<and>
          init_type c = ArrayExpression \<and>
          (\<forall>d \<in> set (xs @ ys).
             init_type d = FunctionExpression \<or> init_type d = ArrowFunctionExpression)"
    by (rule exI [of _ "[]"], rule exI [of _ "const_of ''COLORS'' ArrayExpression"],
        rule exI [of _ "[const_of ''colorCode'' ArrowFunctionExpression,
                         const_of ''value'' ArrowFunctionExpression]"])
       (simp add: cs const_of_def)
  then have yes: "fst (isUsingOptimalConstants facts_externals ?s)"
    using isUsingOptimalConstants_single_array [of facts_externals ?s] by blast
  have none: "\<forall>c \<in> set (fst (mainConstants facts_externals ?t)). init_type c \<noteq> ArrayExpression"
    by (simp add: mainConstants_def harness map_table_solution_def node_types Let_def)
  then have no: "\<not> fst (isUsingOptimalConstants facts_externals ?t)"
    using isUsingOptimalConstants_single_array [of facts_externals ?t] by blast
  from yes no show ?thesis by blast
qed

subsection \<open>The verdict of a run\<close>





text \<open>
  C10. Whenever \<^verbatim>\<open>checkStructure\<close> is called on an analyzer for which the getter finds
  no main method, it finalises the run as Disapproved; so whenever it returns, and
  \<^verbatim>\<open>checkSignature\<close> is executed next, the getter does find the method and
  \<^verbatim>\<open>checkSignature\<close> does not throw a TypeError. No call of \<^verbatim>\<open>execute\<close> throws one.
\<close>

theorem checkSignature_main_method_present:
  "(fst (mainMethod ext s) = None \<longrightarrow>
      (\<exists>t. checkStructure ext s = Throw EarlyFinalization t \<and>
           status (analyzer_output t) = Disapproved)) \<and>
   (\<forall>s1. checkStructure ext s = Return s1 \<longrightarrow>
      fst (mainMethod ext s1) \<noteq> None \<and> (\<forall>t. checkSignature ext s1 \<noteq> Throw TypeError t)) \<and>
   (\<forall>t. execute ext s input \<noteq> Throw TypeError t)"
proof (intro conjI allI impI)
  assume "fst (mainMethod ext s) = None"
  then show "\<exists>t. checkStructure ext s = Throw EarlyFinalization t \<and>
           status (analyzer_output t) = Disapproved"
    by (simp add: checkStructure_eq Let_def)
next
  fix s1 assume r: "checkStructure ext s = Return s1"
  show m: "fst (mainMethod ext s1) \<noteq> None"
    using checkStructure_Return(1) [OF r] by (simp add: checkStructure_Return(3) [OF r])
  fix t show "checkSignature ext s1 \<noteq> Throw TypeError t"
    using m by (rule checkSignature_no_TypeError)
next
  fix t
  show "execute ext s input \<noteq> Throw TypeError t"
  proof (cases "parse ext input")
    case None
    then show ?thesis by (simp add: execute_def)
  next
    case (Some a)
    obtain prog src where a: "a = (prog, src)" by (cases a)
    let ?s0 = "s\<lparr>program := prog, source := src\<rparr>"
    show ?thesis
    proof (cases "checkStructure ext ?s0")
      case (Throw e u)
      then have "e = EarlyFinalization"
        by (simp add: checkStructure_eq Let_def split: if_splits)
      with Throw Some a show ?thesis by (simp add: execute_def)
    next
      case (Return s1)
      have m: "fst (mainMethod ext s1) \<noteq> None"
        using checkStructure_Return(1) [OF Return] by (simp add: checkStructure_Return(3) [OF Return])
      show ?thesis
      proof (cases "checkSignature ext s1")
        case (Throw e u)
        with checkSignature_no_TypeError [OF m] have "e \<noteq> TypeError \<or> u \<noteq> t" by auto
        moreover have "e = TypeError \<or> e = EarlyFinalization"
          using Throw by (auto simp: checkSignature_eq Let_def split: option.splits list.splits if_splits)
        ultimately show ?thesis using Some a Return Throw 
          by (auto simp add: execute_def)
      next
        case r2: (Return s2)
        with Some a Return show ?thesis
          by (simp add: execute_def checkForOptimalSolutions_returns)
      qed
    qed
  qed
qed

theorem checkSignature_main_method_present_witness:
  "(\<exists>t. checkStructure facts_externals (new_analyzer\<lparr>program := fixture_306\<rparr>)
          = Throw EarlyFinalization t \<and> status (analyzer_output t) = Disapproved) \<and>
   (\<exists>s1. checkStructure facts_externals (new_analyzer\<lparr>program := fixture_307\<rparr>) = Return s1 \<and>
      fst (mainMethod facts_externals s1) \<noteq> None \<and>
      checkSignature facts_externals s1 = Return s1)"
proof -
  let ?a = "new_analyzer\<lparr>program := fixture_306\<rparr>"
  let ?b = "new_analyzer\<lparr>program := fixture_307\<rparr>"
  have "fst (mainMethod facts_externals ?a) = None"
    by (simp add: mainMethod_value harness fixture_306_def)
  with checkSignature_main_method_present [of facts_externals ?a]
  have first: "\<exists>t. checkStructure facts_externals ?a = Throw EarlyFinalization t \<and>
      status (analyzer_output t) = Disapproved"
    by blast
  obtain s1 where s1: "checkStructure facts_externals ?b = Return s1"
    by (simp add: checkStructure_eq found harness fixture_307_def fresh_output_def Let_def)
  with checkSignature_main_method_present [of facts_externals ?b]
  have present: "fst (mainMethod facts_externals s1) \<noteq> None"
    and safe: "\<forall>t. checkSignature facts_externals s1 \<noteq> Throw TypeError t"
    by blast+
  have "s1 = ?b\<lparr>cached_mainMethod := method_found fixture_307,
                 cached_mainExport := Some (export_found fixture_307)\<rparr>"
    using s1 by (simp add: checkStructure_eq found harness fresh_output_def Let_def split: if_splits)
  then have "checkSignature facts_externals s1 = Return s1"
    by (simp add: checkSignature_eq found harness fixture_307_def node_types Let_def)
  with s1 present first show ?thesis by blast
qed

end
